theory Spec2Isabelle
  imports Main
begin

section \<open>Values exchanged with the dispatcher\<close>

text \<open>
  A decoded JSON payload, as \<^verbatim>\<open>request.json()\<close> returns it: \<^verbatim>\<open>None\<close>, a bool, an
  int, a str, a list or a dict. A dict is an association list in insertion order; the
  keys of a decoded dict are distinct, and a member is looked up with \<open>map_of\<close>. JSON
  numbers with a fraction (Python floats) are not part of the model. A \<^verbatim>\<open>str\<close> is a list
  of characters, its \<^verbatim>\<open>len\<close> the length of that list.
\<close>

datatype json =
    JNull
  | JBool bool
  | JInt int
  | JStr string
  | JList "json list"
  | JObj "(string \<times> json) list"

text \<open>Python truthiness, as used by \<^verbatim>\<open>if not body\<close> and \<^verbatim>\<open>params or {}\<close>.\<close>

fun truthy :: "json \<Rightarrow> bool" where
  "truthy JNull = False"
| "truthy (JBool b) = b"
| "truthy (JInt i) = (i \<noteq> 0)"
| "truthy (JStr s) = (s \<noteq> [])"
| "truthy (JList xs) = (xs \<noteq> [])"
| "truthy (JObj kvs) = (kvs \<noteq> [])"

text \<open>
  Exceptions. Every constructor stands for an instance of a subclass of Python's
  \<^verbatim>\<open>Exception\<close>, which is what the \<^verbatim>\<open>except Exception\<close> clauses of the handler
  catch; interpreter-exit and task-cancellation signals, which derive from
  \<^verbatim>\<open>BaseException\<close> only, are outside the model. \<open>ValidationError\<close> is pydantic's, and
  carries the names of the fields that failed; \<open>A2AError\<close> is the protocol error of
  \<^verbatim>\<open>a2a_models.py\<close> with its code, message and data.
\<close>

datatype exn =
    JSONDecodeError string
  | ValueError string
  | TypeError string
  | ValidationError "string list"
  | A2AError int string json
  | OtherException string

text \<open>\<^verbatim>\<open>isinstance(e, json.JSONDecodeError)\<close> and \<^verbatim>\<open>isinstance(e, A2AError)\<close>, which
  decide the \<^verbatim>\<open>except\<close> clause an exception is caught by.\<close>

fun is_JSONDecodeError :: "exn \<Rightarrow> bool" where
  "is_JSONDecodeError (JSONDecodeError m) = True"
| "is_JSONDecodeError _ = False"


subsection \<open>Python's \<^verbatim>\<open>str\<close> of an integer\<close>

definition digit_char :: "nat \<Rightarrow> char" where
  "digit_char d = ''0123456789'' ! d"

function str_nat :: "nat \<Rightarrow> string" where
  "str_nat n = (if n < 10 then [digit_char n] else str_nat (n div 10) @ [digit_char (n mod 10)])"
  by pat_completeness auto
termination
  by (relation "measure id") auto

declare str_nat.simps [simp del]

definition str_int :: "int \<Rightarrow> string" where
  "str_int i = (if i < 0 then CHR ''-'' # str_nat (nat (- i)) else str_nat (nat i))"

text \<open>
  \<^verbatim>\<open>A2AError.__init__\<close> passes \<^verbatim>\<open>f"[{code}] {message}"\<close> to \<^verbatim>\<open>Exception.__init__\<close>, so
  this is what \<^verbatim>\<open>str(e)\<close> gives for a protocol error.
\<close>

definition A2AError_str :: "int \<Rightarrow> string \<Rightarrow> string" where
  "A2AError_str code message = ''['' @ str_int code @ ''] '' @ message"

subsection \<open>Logging and the state the handlers act on\<close>

datatype log_level = WARNING | ERROR | EXCEPTION

text \<open>
  One call of \<^verbatim>\<open>logger.warning\<close>, \<^verbatim>\<open>logger.error\<close> or \<^verbatim>\<open>logger.exception\<close>: the level,
  the text of the message, and the exception whose \<^verbatim>\<open>str(e)\<close> ends the message, if any.
\<close>

record log_entry =
  level :: log_level
  text_of :: string
  exc :: "exn option"

record 's world =
  hstate :: 's
  logs :: "log_entry list"

definition log_msg :: "log_level \<Rightarrow> string \<Rightarrow> exn option \<Rightarrow> 's world \<Rightarrow> 's world" where
  "log_msg l m e w = w\<lparr>logs := logs w @ [\<lparr>level = l, text_of = m, exc = e\<rparr>]\<rparr>"

section \<open>Schemas (\<^verbatim>\<open>a2a_models.py\<close>)\<close>

datatype ErrorType =
    VALIDATION_ERROR
  | NOT_FOUND
  | UNAUTHORIZED
  | FORBIDDEN
  | INTERNAL_ERROR
  | BAD_REQUEST
  | SERVICE_UNAVAILABLE

fun ErrorType_value :: "ErrorType \<Rightarrow> string" where
  "ErrorType_value VALIDATION_ERROR = ''validation_error''"
| "ErrorType_value NOT_FOUND = ''not_found''"
| "ErrorType_value UNAUTHORIZED = ''unauthorized''"
| "ErrorType_value FORBIDDEN = ''forbidden''"
| "ErrorType_value INTERNAL_ERROR = ''internal_error''"
| "ErrorType_value BAD_REQUEST = ''bad_request''"
| "ErrorType_value SERVICE_UNAVAILABLE = ''service_unavailable''"

record ErrorDetail =
  detail_type :: ErrorType
  detail_message :: string
  detail_field :: "string option"
  detail_value :: "json option"
  detail_suggestion :: "string option"

record ErrorResponse =
  resp_success :: bool
  resp_error :: ErrorDetail
  resp_meta :: "(string \<times> json) list option"

text \<open>\<^verbatim>\<open>ErrorResponse.create\<close>; \<^verbatim>\<open>success\<close> keeps its default \<^verbatim>\<open>False\<close>, and
  \<^verbatim>\<open>meta or {}\<close> turns an absent or empty \<^verbatim>\<open>meta\<close> into the empty dict.\<close>

definition ErrorResponse_create ::
  "ErrorType \<Rightarrow> string \<Rightarrow> string option \<Rightarrow> json option \<Rightarrow> string option
     \<Rightarrow> (string \<times> json) list option \<Rightarrow> ErrorResponse" where
  "ErrorResponse_create error_type message fld val suggestion meta =
     \<lparr>resp_success = False,
      resp_error = \<lparr>detail_type = error_type, detail_message = message, detail_field = fld,
                    detail_value = val, detail_suggestion = suggestion\<rparr>,
      resp_meta = Some (case meta of None \<Rightarrow> [] | Some m \<Rightarrow> m)\<rparr>"

text \<open>\<^verbatim>\<open>model_dump(exclude_none=True)\<close>: fields in declaration order, those that are
  \<^verbatim>\<open>None\<close> left out; the enum member is a \<^verbatim>\<open>str\<close> and appears as its value.\<close>

definition opt_entry :: "string \<Rightarrow> json option \<Rightarrow> (string \<times> json) list" where
  "opt_entry k v = (case v of None \<Rightarrow> [] | Some j \<Rightarrow> [(k, j)])"

definition ErrorDetail_dump :: "ErrorDetail \<Rightarrow> json" where
  "ErrorDetail_dump d =
     JObj ([(''type'', JStr (ErrorType_value (detail_type d))),
            (''message'', JStr (detail_message d))]
           @ opt_entry ''field'' (map_option JStr (detail_field d))
           @ opt_entry ''value'' (detail_value d)
           @ opt_entry ''suggestion'' (map_option JStr (detail_suggestion d)))"

definition ErrorResponse_dump :: "ErrorResponse \<Rightarrow> json" where
  "ErrorResponse_dump r =
     JObj ([(''success'', JBool (resp_success r)),
            (''error'', ErrorDetail_dump (resp_error r))]
           @ opt_entry ''meta'' (map_option JObj (resp_meta r)))"

text \<open>
  \<^verbatim>\<open>A2ARequest\<close> after validation. \<^verbatim>\<open>params\<close> is
  \<^verbatim>\<open>Optional[Union[Dict[str, Any], List[Any]]]\<close> and \<^verbatim>\<open>id\<close> is
  \<^verbatim>\<open>Optional[Union[str, int, None]]\<close>.
\<close>

datatype params_value = NamedParams "(string \<times> json) list" | PositionalParams "json list"

datatype id_value = IdStr string | IdInt int

record A2ARequest =
  rq_jsonrpc :: string
  rq_method :: string
  rq_params :: "params_value option"
  rq_id :: "id_value option"

fun id_json :: "id_value option \<Rightarrow> json" where
  "id_json None = JNull"
| "id_json (Some (IdStr s)) = JStr s"
| "id_json (Some (IdInt i)) = JInt i"

text \<open>
  Field validation as pydantic performs it for the declared types: a missing field takes
  its default (\<^verbatim>\<open>method\<close> has none and is required), \<^verbatim>\<open>str\<close> fields take strings only,
  unknown keys are ignored. The result of each function is \<open>None\<close> when the field is
  rejected. For \<^verbatim>\<open>id\<close> a bool is taken by the \<^verbatim>\<open>int\<close> member of the union, as 0 or 1.
\<close>

fun validate_jsonrpc :: "json option \<Rightarrow> string option" where
  "validate_jsonrpc None = Some ''2.0''"
| "validate_jsonrpc (Some (JStr s)) = Some s"
| "validate_jsonrpc (Some _) = None"

fun validate_method :: "json option \<Rightarrow> string option" where
  "validate_method (Some (JStr s)) = Some s"
| "validate_method _ = None"

fun validate_params :: "json option \<Rightarrow> params_value option option" where
  "validate_params None = Some None"
| "validate_params (Some JNull) = Some None"
| "validate_params (Some (JObj kvs)) = Some (Some (NamedParams kvs))"
| "validate_params (Some (JList xs)) = Some (Some (PositionalParams xs))"
| "validate_params (Some _) = None"

fun validate_id :: "json option \<Rightarrow> id_value option option" where
  "validate_id None = Some None"
| "validate_id (Some JNull) = Some None"
| "validate_id (Some (JStr s)) = Some (Some (IdStr s))"
| "validate_id (Some (JInt i)) = Some (Some (IdInt i))"
| "validate_id (Some (JBool b)) = Some (Some (IdInt (if b then 1 else 0)))"
| "validate_id (Some _) = None"

text \<open>\<^verbatim>\<open>A2ANotification\<close> redeclares \<^verbatim>\<open>id: None = None\<close>: only an absent or null id passes.\<close>

fun validate_id_none :: "json option \<Rightarrow> id_value option option" where
  "validate_id_none None = Some None"
| "validate_id_none (Some JNull) = Some None"
| "validate_id_none (Some _) = None"

definition failed :: "string \<Rightarrow> 'a option \<Rightarrow> string list" where
  "failed name r = (case r of None \<Rightarrow> [name] | Some _ \<Rightarrow> [])"

definition validate_model ::
  "(json option \<Rightarrow> id_value option option) \<Rightarrow> (string \<times> json) list \<Rightarrow> exn + A2ARequest" where
  "validate_model id_validator kvs =
     (let j = validate_jsonrpc (map_of kvs ''jsonrpc'');
          m = validate_method (map_of kvs ''method'');
          p = validate_params (map_of kvs ''params'');
          i = id_validator (map_of kvs ''id'')
      in case (j, m, p, i) of
           (Some j', Some m', Some p', Some i') \<Rightarrow>
             Inr \<lparr>rq_jsonrpc = j', rq_method = m', rq_params = p', rq_id = i'\<rparr>
         | _ \<Rightarrow>
             Inl (ValidationError (failed ''jsonrpc'' j @ failed ''method'' m
                                   @ failed ''params'' p @ failed ''id'' i)))"

text \<open>\<^verbatim>\<open>A2ARequest(**data)\<close> and \<^verbatim>\<open>A2ANotification(**data)\<close>: unpacking anything but a
  dict is a \<^verbatim>\<open>TypeError\<close>.\<close>

definition A2ARequest_init :: "json \<Rightarrow> exn + A2ARequest" where
  "A2ARequest_init data =
     (case data of
        JObj kvs \<Rightarrow> validate_model validate_id kvs
      | _ \<Rightarrow> Inl (TypeError ''argument after ** must be a mapping''))"

definition A2ANotification_init :: "json \<Rightarrow> exn + A2ARequest" where
  "A2ANotification_init data =
     (case data of
        JObj kvs \<Rightarrow> validate_model validate_id_none kvs
      | _ \<Rightarrow> Inl (TypeError ''argument after ** must be a mapping''))"

section \<open>The handler (\<^verbatim>\<open>a2a_handler.py\<close>)\<close>

text \<open>
  \<^verbatim>\<open>A2AResult\<close> is only ever built by its two class methods, \<^verbatim>\<open>success(data)\<close> and
  \<^verbatim>\<open>error(error)\<close>, the latter holding an \<^verbatim>\<open>ErrorResponse\<close>.
\<close>

datatype A2AResult = A2AResult_success json | A2AResult_error ErrorResponse

fun to_dict :: "A2AResult \<Rightarrow> json" where
  "to_dict (A2AResult_success data) = JObj [(''success'', JBool True), (''data'', data)]"
| "to_dict (A2AResult_error error) =
     JObj [(''success'', JBool False), (''error'', ErrorResponse_dump error)]"

text \<open>
  What a handler is called with: JSON values taken from the request, and possibly the
  \<^verbatim>\<open>A2ARequestContext\<close> object; either as keyword arguments (\<^verbatim>\<open>handler(**params)\<close>) or
  as positional ones (\<^verbatim>\<open>handler(*params)\<close>).
\<close>

datatype pyval = Val json | Context

datatype call_args = Kwargs "(string \<times> pyval) list" | Args "pyval list"

text \<open>
  A registered callable, a function or a bound method as \<^verbatim>\<open>A2AService\<close> registers
  them: the names in its \<^verbatim>\<open>__annotations__\<close>, and what calling and awaiting it does to the
  state the handlers share, where it returns a value or raises (also when the arguments
  do not fit its parameters). Building the \<^verbatim>\<open>A2ARequestContext\<close> from the transport
  request reads three of its attributes and does not fail.
\<close>

record 's handler =
  annotations :: "string list"
  invoke :: "call_args \<Rightarrow> 's \<Rightarrow> (exn + json) \<times> 's"

type_synonym 's registry = "string \<rightharpoonup> 's handler"

definition register_method :: "string \<Rightarrow> 's handler \<Rightarrow> 's registry \<Rightarrow> 's registry" where
  "register_method name h methods = methods(name \<mapsto> h)"

text \<open>\<^verbatim>\<open>d[k] = v\<close> on a dict: an existing key keeps its place, a new one goes last.\<close>

fun dict_set :: "string \<Rightarrow> 'v \<Rightarrow> (string \<times> 'v) list \<Rightarrow> (string \<times> 'v) list" where
  "dict_set k v [] = [(k, v)]"
| "dict_set k v ((k', v') # kvs) = (if k' = k then (k, v) # kvs else (k', v') # dict_set k v kvs)"

text \<open>
  Lines 132 to 140 (and 219 to 227): \<^verbatim>\<open>params = a2a_request.params or {}\<close>, so absent
  params and empty ones of either shape become the empty dict; then the context is stored
  under the key \<^verbatim>\<open>context\<close>, or appended, when the handler's annotations name it.
\<close>

definition params_or_empty :: "params_value option \<Rightarrow> params_value" where
  "params_or_empty p =
     (case p of
        None \<Rightarrow> NamedParams []
      | Some (NamedParams kvs) \<Rightarrow> if kvs = [] then NamedParams [] else NamedParams kvs
      | Some (PositionalParams xs) \<Rightarrow> if xs = [] then NamedParams [] else PositionalParams xs)"

definition bind_params :: "'s handler \<Rightarrow> A2ARequest \<Rightarrow> call_args" where
  "bind_params h rq =
     (let params = params_or_empty (rq_params rq) in
      if ''context'' \<in> set (annotations h) then
        (case params of
           NamedParams kvs \<Rightarrow> Kwargs (dict_set ''context'' Context (map (\<lambda>(k, v). (k, Val v)) kvs))
         | PositionalParams xs \<Rightarrow> Args (map Val xs @ [Context]))
      else
        (case params of
           NamedParams kvs \<Rightarrow> Kwargs (map (\<lambda>(k, v). (k, Val v)) kvs)
         | PositionalParams xs \<Rightarrow> Args (map Val xs)))"

definition not_found_message :: "string \<Rightarrow> string" where
  "not_found_message m = ''Method '' @ [CHR 0x27] @ m @ [CHR 0x27] @ '' not found''"

text \<open>The body of the \<^verbatim>\<open>try\<close> of \<^verbatim>\<open>_process_single_request\<close> (lines 115 to 172), with
  the inner \<^verbatim>\<open>try\<close> around the call of the handler and its two \<^verbatim>\<open>except\<close> clauses.\<close>

definition process_single_request_try ::
  "'s registry \<Rightarrow> json \<Rightarrow> 's world \<Rightarrow> (exn + json) \<times> 's world" where
  "process_single_request_try methods data w =
     (case A2ARequest_init data of
        Inl e \<Rightarrow> (Inl e, w)
      | Inr a2a_request \<Rightarrow>
          (case methods (rq_method a2a_request) of
             None \<Rightarrow>
               (Inr (to_dict (A2AResult_error (ErrorResponse_create NOT_FOUND
                        (not_found_message (rq_method a2a_request)) None None
                        (Some ''Check the method name and try again'') None))), w)
           | Some h \<Rightarrow>
               (case invoke h (bind_params h a2a_request) (hstate w) of
                  (Inr result, s') \<Rightarrow>
                    (Inr (to_dict (A2AResult_success (JObj
                        [(''jsonrpc'', JStr ''2.0''),
                         (''id'', id_json (rq_id a2a_request)),
                         (''result'', result)]))),
                     w\<lparr>hstate := s'\<rparr>)
                | (Inl (A2AError code message d), s') \<Rightarrow>
                    (Inr (to_dict (A2AResult_error (ErrorResponse_create BAD_REQUEST
                        (A2AError_str code message) None None
                        (Some ''Check your request parameters and try again'') None))),
                     log_msg ERROR (''A2A error in '' @ rq_method a2a_request @ '': '')
                       (Some (A2AError code message d)) (w\<lparr>hstate := s'\<rparr>))
                | (Inl e, s') \<Rightarrow>
                    (Inr (to_dict (A2AResult_error (ErrorResponse_create INTERNAL_ERROR
                        (''Error executing '' @ rq_method a2a_request) None None
                        (Some ''Please try again later'') None))),
                     log_msg EXCEPTION (''Error executing method '' @ rq_method a2a_request)
                       None (w\<lparr>hstate := s'\<rparr>)))))"

text \<open>\<^verbatim>\<open>_process_single_request\<close>: the \<^verbatim>\<open>try\<close> above under its \<^verbatim>\<open>except Exception\<close>
  (lines 174 to 181).\<close>

definition process_single_request ::
  "'s registry \<Rightarrow> json \<Rightarrow> 's world \<Rightarrow> (exn + json) \<times> 's world" where
  "process_single_request methods data w =
     (case process_single_request_try methods data w of
        (Inr r, w') \<Rightarrow> (Inr r, w')
      | (Inl e, w') \<Rightarrow>
          (Inr (to_dict (A2AResult_error (ErrorResponse_create INTERNAL_ERROR
                  ''An error occurred while processing your request'' None None
                  (Some ''Please try again later'') None))),
           log_msg EXCEPTION ''Error processing request: '' (Some e) w'))"

text \<open>The \<^verbatim>\<open>for item in body\<close> loop of \<^verbatim>\<open>handle_request\<close> with its accumulator
  \<^verbatim>\<open>results\<close>; an exception leaving \<^verbatim>\<open>_process_single_request\<close> would end the loop.\<close>

fun process_batch ::
  "'s registry \<Rightarrow> json list \<Rightarrow> json list \<Rightarrow> 's world \<Rightarrow> (exn + json list) \<times> 's world" where
  "process_batch methods [] results w = (Inr results, w)"
| "process_batch methods (item # items) results w =
     (case process_single_request methods item w of
        (Inl e, w') \<Rightarrow> (Inl e, w')
      | (Inr result, w') \<Rightarrow> process_batch methods items (results @ [result]) w')"

text \<open>Lines 71 to 83: the body of the inner \<^verbatim>\<open>try\<close> of \<^verbatim>\<open>handle_request\<close>. The first
  argument after the registry is what \<^verbatim>\<open>await request.json()\<close> does: raise or return the
  decoded body.\<close>

definition handle_request_body ::
  "'s registry \<Rightarrow> exn + json \<Rightarrow> 's world \<Rightarrow> (exn + json) \<times> 's world" where
  "handle_request_body methods request_json w =
     (case request_json of
        Inl e \<Rightarrow> (Inl e, w)
      | Inr body \<Rightarrow>
          if \<not> truthy body then (Inl (ValueError ''Empty request body''), w)
          else
            (case body of
               JList items \<Rightarrow>
                 (case process_batch methods items [] w of
                    (Inl e, w') \<Rightarrow> (Inl e, w')
                  | (Inr results, w') \<Rightarrow>
                      (Inr (if length results = 1 then results ! 0 else JList results), w'))
             | _ \<Rightarrow> process_single_request methods body w))"

text \<open>Lines 70 to 101: the inner \<^verbatim>\<open>try\<close> with \<^verbatim>\<open>except json.JSONDecodeError\<close> and
  \<^verbatim>\<open>except Exception\<close>.\<close>

definition handle_request_inner ::
  "'s registry \<Rightarrow> exn + json \<Rightarrow> 's world \<Rightarrow> (exn + json) \<times> 's world" where
  "handle_request_inner methods request_json w =
     (case handle_request_body methods request_json w of
        (Inr r, w') \<Rightarrow> (Inr r, w')
      | (Inl (JSONDecodeError m), w') \<Rightarrow>
          (Inr (to_dict (A2AResult_error (ErrorResponse_create BAD_REQUEST
                  ''Invalid JSON in request body'' None None
                  (Some ''Please check your request body is valid JSON'') None))),
           log_msg ERROR ''Invalid JSON in request: '' (Some (JSONDecodeError m)) w')
      | (Inl e, w') \<Rightarrow>
          (Inr (to_dict (A2AResult_error (ErrorResponse_create INTERNAL_ERROR
                  ''An error occurred while processing your request'' None None
                  (Some ''Please try again later'') None))),
           log_msg EXCEPTION ''Error processing request: '' (Some e) w'))"

text \<open>\<^verbatim>\<open>handle_request\<close>: the outer \<^verbatim>\<open>try\<close> with its \<^verbatim>\<open>except Exception\<close> (lines 103 to
  110). \<open>Inl\<close> in the result would be an exception reaching the route.\<close>

definition handle_request ::
  "'s registry \<Rightarrow> exn + json \<Rightarrow> 's world \<Rightarrow> (exn + json) \<times> 's world" where
  "handle_request methods request_json w =
     (case handle_request_inner methods request_json w of
        (Inr r, w') \<Rightarrow> (Inr r, w')
      | (Inl e, w') \<Rightarrow>
          (Inr (to_dict (A2AResult_error (ErrorResponse_create INTERNAL_ERROR
                  ''An unexpected error occurred'' None None
                  (Some ''Please try again later'') None))),
           log_msg EXCEPTION ''Unexpected error in A2A handler'' None w'))"

subsection \<open>Notifications\<close>

text \<open>Lines 206 to 237, the body of the \<^verbatim>\<open>try\<close> of \<^verbatim>\<open>_process_single_notification\<close>; the
  inner \<^verbatim>\<open>except Exception\<close> logs what the handler raised.\<close>

definition process_single_notification_try ::
  "'s registry \<Rightarrow> json \<Rightarrow> 's world \<Rightarrow> (exn + unit) \<times> 's world" where
  "process_single_notification_try methods data w =
     (case A2ANotification_init data of
        Inl e \<Rightarrow> (Inl e, w)
      | Inr notification \<Rightarrow>
          (case methods (rq_method notification) of
             None \<Rightarrow>
               (Inr (), log_msg WARNING
                  (''Notification method not found: '' @ rq_method notification) None w)
           | Some h \<Rightarrow>
               (case invoke h (bind_params h notification) (hstate w) of
                  (Inr result, s') \<Rightarrow> (Inr (), w\<lparr>hstate := s'\<rparr>)
                | (Inl e, s') \<Rightarrow>
                    (Inr (), log_msg EXCEPTION
                       (''Error in notification handler '' @ rq_method notification) None
                       (w\<lparr>hstate := s'\<rparr>)))))"

definition process_single_notification ::
  "'s registry \<Rightarrow> json \<Rightarrow> 's world \<Rightarrow> (exn + unit) \<times> 's world" where
  "process_single_notification methods data w =
     (case process_single_notification_try methods data w of
        (Inr u, w') \<Rightarrow> (Inr (), w')
      | (Inl e, w') \<Rightarrow>
          (Inr (), log_msg EXCEPTION ''Error processing notification: '' (Some e) w'))"

fun notify_batch :: "'s registry \<Rightarrow> json list \<Rightarrow> 's world \<Rightarrow> (exn + unit) \<times> 's world" where
  "notify_batch methods [] w = (Inr (), w)"
| "notify_batch methods (item # items) w =
     (case process_single_notification methods item w of
        (Inl e, w') \<Rightarrow> (Inl e, w')
      | (Inr u, w') \<Rightarrow> notify_batch methods items w')"

definition handle_notification_body ::
  "'s registry \<Rightarrow> exn + json \<Rightarrow> 's world \<Rightarrow> (exn + unit) \<times> 's world" where
  "handle_notification_body methods request_json w =
     (case request_json of
        Inl e \<Rightarrow> (Inl e, w)
      | Inr data \<Rightarrow>
          if \<not> truthy data then (Inr (), log_msg WARNING ''Received empty notification'' None w)
          else
            (case data of
               JList items \<Rightarrow> notify_batch methods items w
             | _ \<Rightarrow> process_single_notification methods data w))"

text \<open>\<^verbatim>\<open>handle_notification\<close> returns \<^verbatim>\<open>None\<close>: the result \<open>Inr ()\<close>.\<close>

definition handle_notification ::
  "'s registry \<Rightarrow> exn + json \<Rightarrow> 's world \<Rightarrow> (exn + unit) \<times> 's world" where
  "handle_notification methods request_json w =
     (case handle_notification_body methods request_json w of
        (Inr u, w') \<Rightarrow> (Inr (), w')
      | (Inl (JSONDecodeError m), w') \<Rightarrow>
          (Inr (), log_msg ERROR ''Invalid JSON in notification: '' (Some (JSONDecodeError m)) w')
      | (Inl e, w') \<Rightarrow>
          (Inr (), log_msg EXCEPTION ''Error handling notification: '' (Some e) w'))"

section \<open>The service's handlers used in the examples (\<^verbatim>\<open>a2a_service.py\<close>)\<close>

text \<open>\<^verbatim>\<open>len\<close> is defined on strings, lists and dicts; on anything else it raises.\<close>

fun py_len :: "pyval \<Rightarrow> exn + int" where
  "py_len (Val (JStr s)) = Inr (int (length s))"
| "py_len (Val (JList xs)) = Inr (int (length xs))"
| "py_len (Val (JObj kvs)) = Inr (int (length kvs))"
| "py_len _ = Inl (TypeError ''object has no len()'')"

text \<open>Binding the arguments of a call to a method with the one parameter \<open>name\<close>
  (besides \<^verbatim>\<open>self\<close>): exactly one argument, by position or under that name.\<close>

fun bind_one :: "string \<Rightarrow> call_args \<Rightarrow> exn + pyval" where
  "bind_one name (Args [v]) = Inr v"
| "bind_one name (Kwargs [(k, v)]) =
     (if k = name then Inr v else Inl (TypeError ''unexpected keyword argument''))"
| "bind_one name _ = Inl (TypeError ''wrong number of arguments'')"

text \<open>\<^verbatim>\<open>A2AService.echo\<close>: the annotation does not check the argument, so any value with a
  length is echoed.\<close>

definition echo :: "pyval \<Rightarrow> exn + json" where
  "echo message =
     (case message of
        Context \<Rightarrow> Inl (TypeError ''object has no len()'')
      | Val m \<Rightarrow>
          (case py_len message of
             Inl e \<Rightarrow> Inl e
           | Inr n \<Rightarrow> Inr (JObj [(''echo'', m), (''length'', JInt n)])))"

definition echo_handler :: "'s handler" where
  "echo_handler =
     \<lparr>annotations = [''message'', ''return''],
      invoke = (\<lambda>args s. (case bind_one ''message'' args of Inl e \<Rightarrow> Inl e | Inr m \<Rightarrow> echo m, s))\<rparr>"

text \<open>\<^verbatim>\<open>A2AService.ping\<close> takes no argument.\<close>

fun bind_none :: "call_args \<Rightarrow> exn + unit" where
  "bind_none (Args []) = Inr ()"
| "bind_none (Kwargs []) = Inr ()"
| "bind_none _ = Inl (TypeError ''wrong number of arguments'')"

definition ping :: json where
  "ping = JObj [(''status'', JStr ''pong''), (''timestamp'', JStr ''2024-01-01T00:00:00Z''),
                (''agent'', JStr ''AI Code Reviewer'')]"

definition ping_handler :: "'s handler" where
  "ping_handler =
     \<lparr>annotations = [''return''],
      invoke = (\<lambda>args s. (case bind_none args of Inl e \<Rightarrow> Inl e | Inr u \<Rightarrow> Inr ping, s))\<rparr>"

text \<open>The part of \<^verbatim>\<open>A2AService._register_methods\<close> that registers these two.\<close>

definition core_methods :: "'s registry" where
  "core_methods = register_method ''echo'' echo_handler (register_method ''ping'' ping_handler Map.empty)"

section \<open>Inputs and values named in the statements\<close>

text \<open>The request unit \<^verbatim>\<open>{"jsonrpc": "2.0", "method": m, "params": p, "id": x}\<close>.\<close>

definition request_unit :: "string \<Rightarrow> json \<Rightarrow> json \<Rightarrow> json" where
  "request_unit m p x =
     JObj [(''jsonrpc'', JStr ''2.0''), (''method'', JStr m), (''params'', p), (''id'', x)]"

text \<open>The same unit without the \<^verbatim>\<open>id\<close> member.\<close>

definition notification_unit :: "string \<Rightarrow> json \<Rightarrow> json" where
  "notification_unit m p = JObj [(''jsonrpc'', JStr ''2.0''), (''method'', JStr m), (''params'', p)]"

text \<open>The units of the examples: \<^verbatim>\<open>echo\<close> of \<^verbatim>\<open>"a"\<close> with id 1, of \<^verbatim>\<open>"bb"\<close> with
  id 2, and of \<^verbatim>\<open>"bb"\<close> with no id.\<close>

definition echo_a :: json where
  "echo_a = request_unit ''echo'' (JObj [(''message'', JStr ''a'')]) (JInt 1)"

definition echo_bb :: json where
  "echo_bb = request_unit ''echo'' (JObj [(''message'', JStr ''bb'')]) (JInt 2)"

definition echo_bb_no_id :: json where
  "echo_bb_no_id = notification_unit ''echo'' (JObj [(''message'', JStr ''bb'')])"


text \<open>An id as the Request shape has it: a string or an integer.\<close>

fun is_id :: "json \<Rightarrow> bool" where
  "is_id (JStr s) = True"
| "is_id (JInt i) = True"
| "is_id _ = False"

text \<open>Whether a unit carries an id (a member \<^verbatim>\<open>id\<close> that is not null).\<close>

fun has_id :: "json \<Rightarrow> bool" where
  "has_id (JObj kvs) = (case map_of kvs ''id'' of None \<Rightarrow> False | Some v \<Rightarrow> v \<noteq> JNull)"
| "has_id _ = False"

text \<open>What every error branch of the handler returns:
  \<^verbatim>\<open>A2AResult.error(ErrorResponse.create(error_type=t, message=m, suggestion=s)).to_dict()\<close>.\<close>

definition error_envelope :: "ErrorType \<Rightarrow> string \<Rightarrow> string \<Rightarrow> json" where
  "error_envelope t m s =
     to_dict (A2AResult_error (ErrorResponse_create t m None None (Some s) None))"





text \<open>A state with nothing logged, and a handler that raises whatever it is called with,
  for the examples.\<close>

definition start :: "'s \<Rightarrow> 's world" where
  "start s = \<lparr>hstate = s, logs = []\<rparr>"

definition raising_handler :: "exn \<Rightarrow> 's handler" where
  "raising_handler e = \<lparr>annotations = [''return''], invoke = (\<lambda>args s. (Inl e, s))\<rparr>"

text \<open>A handler that records its name in the shared state and returns null: the state is
  then the list of the handlers called so far.\<close>

definition recording_handler :: "string \<Rightarrow> (string list) handler" where
  "recording_handler name = \<lparr>annotations = [''return''], invoke = (\<lambda>args s. (Inr JNull, s @ [name]))\<rparr>"

text \<open>The two registered methods and a method \<^verbatim>\<open>fail\<close> whose handler raises the
  protocol error \<^verbatim>\<open>A2AError(-32602, "Invalid params: message is required")\<close>, as the
  service's handlers do for a missing argument.\<close>

definition failing_methods :: "'s registry" where
  "failing_methods =
     register_method ''fail''
       (raising_handler (A2AError (- 32602) ''Invalid params: message is required'' JNull))
       core_methods"

text \<open>A registry whose only method, \<^verbatim>\<open>ping\<close>, records its calls.\<close>

definition recording_methods :: "(string list) registry" where
  "recording_methods = register_method ''ping'' (recording_handler ''ping'') Map.empty"

text \<open>The state reached after the units of a list have been dispatched one after the
  other.\<close>

fun world_after :: "'s registry \<Rightarrow> json list \<Rightarrow> 's world \<Rightarrow> 's world" where
  "world_after methods [] w = w"
| "world_after methods (item # items) w =
     world_after methods items (snd (process_single_request methods item w))"

section \<open>Properties of the dispatcher of one unit\<close>


lemma init_request_unit:
  assumes "A2ARequest_init (request_unit m p x) = Inr rq"
  shows "rq_method rq = m" and "is_id x \<Longrightarrow> id_json (rq_id rq) = x"
  using assms
  by (cases x; auto simp: A2ARequest_init_def request_unit_def validate_model_def Let_def
        split: option.splits)+

lemma psr_success:
  assumes "A2ARequest_init data = Inr rq" and "methods (rq_method rq) = Some h"
    and "invoke h (bind_params h rq) (hstate w) = (Inr r, s')"
  shows "process_single_request methods data w =
     (Inr (JObj [(''success'', JBool True),
                 (''data'', JObj [(''jsonrpc'', JStr ''2.0''),
                                  (''id'', id_json (rq_id rq)),
                                  (''result'', r)])]),
      w\<lparr>hstate := s'\<rparr>)"
  using assms by (simp add: process_single_request_def process_single_request_try_def)


lemma psr_protocol_error:
  assumes "A2ARequest_init data = Inr rq" and "methods (rq_method rq) = Some h"
    and "invoke h (bind_params h rq) (hstate w) = (Inl (A2AError c m d), s')"
  shows "process_single_request methods data w =
     (Inr (error_envelope BAD_REQUEST (A2AError_str c m)
             ''Check your request parameters and try again''),
      log_msg ERROR (''A2A error in '' @ rq_method rq @ '': '') (Some (A2AError c m d))
        (w\<lparr>hstate := s'\<rparr>))"
  using assms
  by (simp add: process_single_request_def process_single_request_try_def error_envelope_def)


lemma psr_invalid:
  assumes "A2ARequest_init data = Inl e"
  shows "process_single_request methods data w =
     (Inr (error_envelope INTERNAL_ERROR ''An error occurred while processing your request''
             ''Please try again later''),
      log_msg EXCEPTION ''Error processing request: '' (Some e) w)"
  using assms
  by (simp add: process_single_request_def process_single_request_try_def error_envelope_def)

lemma psr_returns: "\<exists>j w'. process_single_request methods data w = (Inr j, w')"
proof -
  obtain r w1 where t: "process_single_request_try methods data w = (r, w1)"
    by (cases "process_single_request_try methods data w")
  show ?thesis
    by (cases r) (simp_all add: process_single_request_def t)
qed

lemma handle_request_single:
  assumes "truthy body" and "\<forall>items. body \<noteq> JList items"
  shows "handle_request methods (Inr body) w = process_single_request methods body w"
proof -
  obtain j w' where r: "process_single_request methods body w = (Inr j, w')"
    using psr_returns by blast
  from assms r have "handle_request_body methods (Inr body) w = (Inr j, w')"
    by (cases body) (simp_all add: handle_request_body_def)
  then show ?thesis
    by (simp add: handle_request_def handle_request_inner_def r)
qed

lemma truthy_request_unit: "truthy (request_unit m p x)" "\<forall>items. request_unit m p x \<noteq> JList items"
  by (simp_all add: request_unit_def)

lemma echo_hi:
  "invoke echo_handler (Kwargs [(''message'', Val (JStr ''hi''))]) s =
     (Inr (JObj [(''echo'', JStr ''hi''), (''length'', JInt 2)]), s)"
  by (simp add: echo_handler_def echo_def)

lemma init_echo_hi:
  "A2ARequest_init (request_unit ''echo'' (JObj [(''message'', JStr ''hi'')]) (JInt 1)) =
     Inr \<lparr>rq_jsonrpc = ''2.0'', rq_method = ''echo'',
          rq_params = Some (NamedParams [(''message'', JStr ''hi'')]), rq_id = Some (IdInt 1)\<rparr>"
  by (simp add: A2ARequest_init_def request_unit_def validate_model_def)

lemma bind_echo_hi:
  "bind_params echo_handler \<lparr>rq_jsonrpc = ''2.0'', rq_method = ''echo'',
          rq_params = Some (NamedParams [(''message'', JStr ''hi'')]), rq_id = Some (IdInt 1)\<rparr>
     = Kwargs [(''message'', Val (JStr ''hi''))]"
  by (simp add: bind_params_def params_or_empty_def echo_handler_def)


lemma handle_request_raises:
  assumes "handle_request_body methods request_json w = (Inl e, w1)"
  shows "handle_request methods request_json w =
     (if is_JSONDecodeError e
      then (Inr (error_envelope BAD_REQUEST ''Invalid JSON in request body''
                   ''Please check your request body is valid JSON''),
            log_msg ERROR ''Invalid JSON in request: '' (Some e) w1)
      else (Inr (error_envelope INTERNAL_ERROR ''An error occurred while processing your request''
                   ''Please try again later''),
            log_msg EXCEPTION ''Error processing request: '' (Some e) w1))"
  using assms
  by (cases e) (simp_all add: handle_request_def handle_request_inner_def error_envelope_def)


lemma handle_request_empty:
  assumes "\<not> truthy body"
  shows "handle_request_body methods (Inr body) w = (Inl (ValueError ''Empty request body''), w)"
  using assms by (simp add: handle_request_body_def)

lemma str_int_example: "str_int (- 32602) = ''-32602''"
  by (simp add: str_int_def str_nat.simps digit_char_def)

section \<open>Properties of the batch loop\<close>

lemma process_batch_spec:
  "\<exists>rs. process_batch methods items acc w = (Inr (acc @ rs), world_after methods items w) \<and>
        length rs = length items \<and>
        (\<forall>i<length items.
           process_single_request methods (items ! i) (world_after methods (take i items) w) =
             (Inr (rs ! i), world_after methods (take (Suc i) items) w))"
proof (induction items arbitrary: acc w)
  case Nil
  show ?case by simp
next
  case (Cons item items)
  obtain r w1 where r: "process_single_request methods item w = (Inr r, w1)"
    using psr_returns by blast
  from Cons.IH [of "acc @ [r]" w1] obtain rs where
    b: "process_batch methods items (acc @ [r]) w1 = (Inr ((acc @ [r]) @ rs), world_after methods items w1)"
    and l: "length rs = length items"
    and n: "\<forall>i<length items.
           process_single_request methods (items ! i) (world_after methods (take i items) w1) =
             (Inr (rs ! i), world_after methods (take (Suc i) items) w1)"
    by blast
  have "\<forall>i<length (item # items).
           process_single_request methods ((item # items) ! i)
             (world_after methods (take i (item # items)) w) =
             (Inr ((r # rs) ! i), world_after methods (take (Suc i) (item # items)) w)"
  proof (intro allI impI)
    fix i
    assume i: "i < length (item # items)"
    show "process_single_request methods ((item # items) ! i)
             (world_after methods (take i (item # items)) w) =
             (Inr ((r # rs) ! i), world_after methods (take (Suc i) (item # items)) w)"
    proof (cases i)
      case 0
      then show ?thesis by (simp add: r)
    next
      case (Suc k)
      with i have "k < length items" by simp
      with n Suc show ?thesis by (simp add: r)
    qed
  qed
  moreover have "process_batch methods (item # items) acc w =
      (Inr (acc @ r # rs), world_after methods (item # items) w)"
    using b by (simp add: r)
  moreover have "length (r # rs) = length (item # items)"
    using l by simp
  ultimately show ?case by blast
qed

lemma handle_request_batch:
  assumes "items \<noteq> []" and "process_batch methods items [] w = (Inr results, w')"
  shows "handle_request methods (Inr (JList items)) w =
     (Inr (if length results = 1 then results ! 0 else JList results), w')"
  using assms
  by (simp add: handle_request_def handle_request_inner_def handle_request_body_def)

lemma no_id_parsed:
  assumes "\<not> has_id data" and "A2ARequest_init data = Inr rq"
  shows "rq_id rq = None"
proof (cases data)
  case (JObj kvs)
  from assms(1) JObj have "map_of kvs ''id'' = None \<or> map_of kvs ''id'' = Some JNull"
    by (auto split: option.splits)
  with assms(2) JObj show ?thesis
    by (auto simp: A2ARequest_init_def validate_model_def Let_def split: option.splits)
qed (use assms(2) in \<open>simp_all add: A2ARequest_init_def\<close>)

lemmas dispatch_defs =
  handle_request_def handle_request_inner_def handle_request_body_def
  process_single_request_def process_single_request_try_def
  A2ARequest_init_def validate_model_def bind_params_def params_or_empty_def
  request_unit_def notification_unit_def core_methods_def register_method_def
  failing_methods_def raising_handler_def
  echo_handler_def echo_def ping_handler_def ping_def start_def log_msg_def
  ErrorResponse_create_def ErrorResponse_dump_def ErrorDetail_dump_def opt_entry_def
  not_found_message_def failed_def
  handle_notification_def handle_notification_body_def process_single_notification_def
  process_single_notification_try_def A2ANotification_init_def recording_handler_def
  recording_methods_def

section \<open>Every answer is an envelope\<close>



section \<open>Properties of the notification path\<close>

lemma notification_id_rejected:
  assumes "map_of kvs ''id'' = Some v" and "v \<noteq> JNull"
  shows "\<exists>fields. A2ANotification_init (JObj kvs) = Inl (ValidationError fields) \<and>
           ''id'' \<in> set fields"
proof -
  from assms have "validate_id_none (map_of kvs ''id'') = None"
    by (cases v) simp_all
  then show ?thesis
    by (auto simp: A2ANotification_init_def validate_model_def Let_def failed_def
          split: option.splits)
qed

lemma psn_invalid:
  assumes "A2ANotification_init data = Inl e"
  shows "process_single_notification methods data w =
     (Inr (), log_msg EXCEPTION ''Error processing notification: '' (Some e) w)"
  using assms
  by (simp add: process_single_notification_def process_single_notification_try_def)

lemma psn_returns: "\<exists>w'. process_single_notification methods data w = (Inr (), w')"
proof -
  obtain r w1 where t: "process_single_notification_try methods data w = (r, w1)"
    by (cases "process_single_notification_try methods data w")
  show ?thesis
    by (cases r) (simp_all add: process_single_notification_def t)
qed

lemma handle_notification_single:
  assumes "truthy data" and "\<forall>items. data \<noteq> JList items"
  shows "handle_notification methods (Inr data) w = process_single_notification methods data w"
proof -
  obtain w' where r: "process_single_notification methods data w = (Inr (), w')"
    using psn_returns by blast
  from assms r have "handle_notification_body methods (Inr data) w = (Inr (), w')"
    by (cases data) (simp_all add: handle_notification_body_def)
  then show ?thesis
    by (simp add: handle_notification_def r)
qed

lemma handle_notification_empty:
  assumes "\<not> truthy data"
  shows "handle_notification methods (Inr data) w =
     (Inr (), log_msg WARNING ''Received empty notification'' None w)"
  using assms by (simp add: handle_notification_def handle_notification_body_def)




section \<open>The claims\<close>

text \<open>
  C1. A request unit \<^verbatim>\<open>{"jsonrpc": "2.0", "method": m, "params": p, "id": x}\<close> whose
  method is registered, whose id is a string or an integer, and whose params have the
  Request shape and make the handler return \<open>r\<close>, is answered, by the dispatcher of one
  unit and by \<^verbatim>\<open>handle_request\<close> on that unit alone, with
  \<^verbatim>\<open>{"success": true, "data": {"jsonrpc": "2.0", "id": x, "result": r}}\<close>. With
  \<^verbatim>\<open>echo\<close> registered, params \<^verbatim>\<open>{"message": "hi"}\<close> and id 1 the output is
  \<^verbatim>\<open>{"success":true,"data":{"jsonrpc":"2.0","id":1,"result":{"echo":"hi","length":2}}}\<close>.
\<close>

theorem C1_success_envelope:
  "(\<forall>(methods :: 's registry) h m p x rq r s' w.
      methods m = Some h \<and> is_id x \<and>
      A2ARequest_init (request_unit m p x) = Inr rq \<and>
      invoke h (bind_params h rq) (hstate w) = (Inr r, s')
      \<longrightarrow> process_single_request methods (request_unit m p x) w =
            (Inr (JObj [(''success'', JBool True),
                        (''data'', JObj [(''jsonrpc'', JStr ''2.0''), (''id'', x), (''result'', r)])]),
             w\<lparr>hstate := s'\<rparr>)
          \<and> handle_request methods (Inr (request_unit m p x)) w =
            (Inr (JObj [(''success'', JBool True),
                        (''data'', JObj [(''jsonrpc'', JStr ''2.0''), (''id'', x), (''result'', r)])]),
             w\<lparr>hstate := s'\<rparr>))
   \<and> (\<forall>(methods :: 's registry) w.
        methods ''echo'' = Some echo_handler
        \<longrightarrow> handle_request methods
              (Inr (request_unit ''echo'' (JObj [(''message'', JStr ''hi'')]) (JInt 1))) w =
            (Inr (JObj [(''success'', JBool True),
                        (''data'', JObj [(''jsonrpc'', JStr ''2.0''), (''id'', JInt 1),
                                         (''result'', JObj [(''echo'', JStr ''hi''),
                                                            (''length'', JInt 2)])])]),
             w))"
proof (intro conjI allI impI)
  fix methods :: "'s registry" and h m p x rq r s' and w :: "'s world"
  assume a: "methods m = Some h \<and> is_id x \<and>
      A2ARequest_init (request_unit m p x) = Inr rq \<and>
      invoke h (bind_params h rq) (hstate w) = (Inr r, s')"
  then have m: "rq_method rq = m" and i: "id_json (rq_id rq) = x"
    using init_request_unit by blast+
  from a m have "methods (rq_method rq) = Some h" by simp
  with a show psr: "process_single_request methods (request_unit m p x) w =
            (Inr (JObj [(''success'', JBool True),
                        (''data'', JObj [(''jsonrpc'', JStr ''2.0''), (''id'', x), (''result'', r)])]),
             w\<lparr>hstate := s'\<rparr>)"
    using psr_success [of "request_unit m p x" rq methods h w r s'] i by simp
  show "handle_request methods (Inr (request_unit m p x)) w =
            (Inr (JObj [(''success'', JBool True),
                        (''data'', JObj [(''jsonrpc'', JStr ''2.0''), (''id'', x), (''result'', r)])]),
             w\<lparr>hstate := s'\<rparr>)"
    using psr by (simp add: handle_request_single [OF truthy_request_unit])
next
  fix methods :: "'s registry" and w :: "'s world"
  assume e: "methods ''echo'' = Some echo_handler"
  have "process_single_request methods
          (request_unit ''echo'' (JObj [(''message'', JStr ''hi'')]) (JInt 1)) w =
        (Inr (JObj [(''success'', JBool True),
                    (''data'', JObj [(''jsonrpc'', JStr ''2.0''), (''id'', JInt 1),
                                     (''result'', JObj [(''echo'', JStr ''hi''),
                                                        (''length'', JInt 2)])])]),
         w\<lparr>hstate := hstate w\<rparr>)"
    using psr_success [OF init_echo_hi, of methods echo_handler w _ "hstate w"] e
    by (simp add: bind_echo_hi echo_hi)
  then show "handle_request methods
              (Inr (request_unit ''echo'' (JObj [(''message'', JStr ''hi'')]) (JInt 1))) w =
            (Inr (JObj [(''success'', JBool True),
                        (''data'', JObj [(''jsonrpc'', JStr ''2.0''), (''id'', JInt 1),
                                         (''result'', JObj [(''echo'', JStr ''hi''),
                                                            (''length'', JInt 2)])])]),
             w)"
    by (simp add: handle_request_single [OF truthy_request_unit])
qed

theorem C1_success_envelope_witness:
  "(core_methods :: unit registry) ''echo'' = Some echo_handler \<and> is_id (JInt 1) \<and>
   A2ARequest_init (request_unit ''echo'' (JObj [(''message'', JStr ''hi'')]) (JInt 1)) =
     Inr \<lparr>rq_jsonrpc = ''2.0'', rq_method = ''echo'',
          rq_params = Some (NamedParams [(''message'', JStr ''hi'')]), rq_id = Some (IdInt 1)\<rparr> \<and>
   invoke (echo_handler :: unit handler)
     (bind_params (echo_handler :: unit handler)
        \<lparr>rq_jsonrpc = ''2.0'', rq_method = ''echo'',
         rq_params = Some (NamedParams [(''message'', JStr ''hi'')]), rq_id = Some (IdInt 1)\<rparr>)
     (hstate (start ())) =
     (Inr (JObj [(''echo'', JStr ''hi''), (''length'', JInt 2)]), ()) \<and>
   process_single_request (core_methods :: unit registry)
     (request_unit ''echo'' (JObj [(''message'', JStr ''hi'')]) (JInt 1)) (start ()) =
     (Inr (JObj [(''success'', JBool True),
                 (''data'', JObj [(''jsonrpc'', JStr ''2.0''), (''id'', JInt 1),
                                  (''result'', JObj [(''echo'', JStr ''hi''),
                                                     (''length'', JInt 2)])])]),
      start ())"
proof -
  have reg: "(core_methods :: unit registry) ''echo'' = Some echo_handler"
    by (simp add: core_methods_def register_method_def)
  have call: "invoke (echo_handler :: unit handler)
     (bind_params (echo_handler :: unit handler)
        \<lparr>rq_jsonrpc = ''2.0'', rq_method = ''echo'',
         rq_params = Some (NamedParams [(''message'', JStr ''hi'')]), rq_id = Some (IdInt 1)\<rparr>)
     (hstate (start ())) =
     (Inr (JObj [(''echo'', JStr ''hi''), (''length'', JInt 2)]), ())"
    by (simp add: bind_echo_hi echo_hi)
  have "process_single_request (core_methods :: unit registry)
     (request_unit ''echo'' (JObj [(''message'', JStr ''hi'')]) (JInt 1)) (start ()) =
     (Inr (JObj [(''success'', JBool True),
                 (''data'', JObj [(''jsonrpc'', JStr ''2.0''), (''id'', JInt 1),
                                  (''result'', JObj [(''echo'', JStr ''hi''),
                                                     (''length'', JInt 2)])])]),
      (start ())\<lparr>hstate := ()\<rparr>)"
    using C1_success_envelope [THEN conjunct1, rule_format,
        of "core_methods :: unit registry" "''echo''" echo_handler "JInt 1"
           "JObj [(''message'', JStr ''hi'')]" _ "start ()"
           "JObj [(''echo'', JStr ''hi''), (''length'', JInt 2)]" "()"]
      reg init_echo_hi call
    by simp
  then show ?thesis
    using reg init_echo_hi call by (simp add: start_def)
qed

text \<open>
  C2. A request-mode payload that is a list of \<open>N > 0\<close> units: every unit goes through the
  dispatcher of one unit, the \<open>i\<close>-th in the state its predecessors left, and yields the
  \<open>i\<close>-th result whatever the others did; \<^verbatim>\<open>handle_request\<close> returns the single result
  itself when there is exactly one, and otherwise the list of all results in input order.
\<close>

theorem C2_batch_results:
  assumes "items \<noteq> []"
  shows "\<exists>results.
           handle_request methods (Inr (JList items)) w =
             (Inr (if length results = 1 then results ! 0 else JList results),
              world_after methods items w) \<and>
           length results = length items \<and>
           (\<forall>i<length items.
              process_single_request methods (items ! i) (world_after methods (take i items) w) =
                (Inr (results ! i), world_after methods (take (Suc i) items) w))"
proof -
  from process_batch_spec [of methods items "[]" w] obtain rs where
    b: "process_batch methods items [] w = (Inr rs, world_after methods items w)"
    and l: "length rs = length items"
    and n: "\<forall>i<length items.
           process_single_request methods (items ! i) (world_after methods (take i items) w) =
             (Inr (rs ! i), world_after methods (take (Suc i) items) w)"
    by auto
  from handle_request_batch [OF assms b] l n show ?thesis by blast
qed

theorem C2_batch_results_witness:
  "[echo_a, echo_bb] \<noteq> [] \<and>
   (\<exists>results.
      handle_request (core_methods :: unit registry) (Inr (JList [echo_a, echo_bb])) (start ()) =
        (Inr (if length results = 1 then results ! 0 else JList results),
         world_after core_methods [echo_a, echo_bb] (start ())) \<and>
      length results = length [echo_a, echo_bb] \<and>
      (\<forall>i<length [echo_a, echo_bb].
         process_single_request core_methods ([echo_a, echo_bb] ! i)
           (world_after core_methods (take i [echo_a, echo_bb]) (start ())) =
           (Inr (results ! i),
            world_after core_methods (take (Suc i) [echo_a, echo_bb]) (start ()))))"
proof -
  have h: "[echo_a, echo_bb] \<noteq> []" by simp
  show ?thesis
    using h C2_batch_results [OF h, of "core_methods :: unit registry" "start ()"] by simp
qed

text \<open>The two cases on the example of the specification: two \<^verbatim>\<open>echo\<close> requests give
  the list of their two envelopes, one \<^verbatim>\<open>echo\<close> request in a list gives its envelope
  alone.\<close>

lemma batch_of_two_example:
  "handle_request (core_methods :: unit registry) (Inr (JList [echo_a, echo_bb])) (start ()) =
     (Inr (JList
        [JObj [(''success'', JBool True),
               (''data'', JObj [(''jsonrpc'', JStr ''2.0''), (''id'', JInt 1),
                                (''result'', JObj [(''echo'', JStr ''a''), (''length'', JInt 1)])])],
         JObj [(''success'', JBool True),
               (''data'', JObj [(''jsonrpc'', JStr ''2.0''), (''id'', JInt 2),
                                (''result'', JObj [(''echo'', JStr ''bb''), (''length'', JInt 2)])])]]),
      start ())"
  by (simp add: echo_a_def echo_bb_def dispatch_defs)

lemma batch_of_one_example:
  "handle_request (core_methods :: unit registry) (Inr (JList [echo_a])) (start ()) =
     (Inr (JObj [(''success'', JBool True),
                 (''data'', JObj [(''jsonrpc'', JStr ''2.0''), (''id'', JInt 1),
                                  (''result'', JObj [(''echo'', JStr ''a''), (''length'', JInt 1)])])]),
      start ())"
  by (simp add: echo_a_def dispatch_defs)

text \<open>
  C3, as stated, fails: \<^verbatim>\<open>handle_request\<close> does not look at whether a unit has an id.
  The batch of an \<^verbatim>\<open>echo\<close> request with id 1 and an \<^verbatim>\<open>echo\<close> unit without id is
  answered with two entries, the second one for the unit without id, carrying
  \<^verbatim>\<open>"id": null\<close>; one unit of the batch has an id.
\<close>

theorem C3_counterexample:
  "handle_request (core_methods :: unit registry) (Inr (JList [echo_a, echo_bb_no_id])) (start ()) =
     (Inr (JList
        [JObj [(''success'', JBool True),
               (''data'', JObj [(''jsonrpc'', JStr ''2.0''), (''id'', JInt 1),
                                (''result'', JObj [(''echo'', JStr ''a''), (''length'', JInt 1)])])],
         JObj [(''success'', JBool True),
               (''data'', JObj [(''jsonrpc'', JStr ''2.0''), (''id'', JNull),
                                (''result'', JObj [(''echo'', JStr ''bb''), (''length'', JInt 2)])])]]),
      start ()) \<and>
   has_id echo_a \<and> \<not> has_id echo_bb_no_id"
  by (simp add: echo_a_def echo_bb_no_id_def dispatch_defs)

text \<open>
  C3, amended. A request-mode batch of more than one unit is answered with a list that
  has one entry for every unit, with or without id, in input order: the \<open>i\<close>-th entry is
  what the dispatcher of one unit returns for the \<open>i\<close>-th unit. A unit without id is
  dispatched like any other; when it has the Request shape, its method is registered and
  the handler returns \<open>r\<close>, its entry is the success envelope with \<^verbatim>\<open>"id": null\<close> and
  result \<open>r\<close>.
\<close>

theorem C3_every_unit_answered:
  assumes "1 < length items"
  shows "\<exists>results.
           fst (handle_request methods (Inr (JList items)) w) = Inr (JList results) \<and>
           length results = length items \<and>
           (\<forall>i<length items.
              fst (process_single_request methods (items ! i)
                     (world_after methods (take i items) w)) = Inr (results ! i) \<and>
              (\<forall>rq h r s'.
                 \<not> has_id (items ! i) \<and> A2ARequest_init (items ! i) = Inr rq \<and>
                 methods (rq_method rq) = Some h \<and>
                 invoke h (bind_params h rq) (hstate (world_after methods (take i items) w)) =
                   (Inr r, s')
                 \<longrightarrow> results ! i =
                       JObj [(''success'', JBool True),
                             (''data'', JObj [(''jsonrpc'', JStr ''2.0''), (''id'', JNull),
                                              (''result'', r)])]))"
proof -
  from assms have ne: "items \<noteq> []" by auto
  from process_batch_spec [of methods items "[]" w] obtain rs where
    b: "process_batch methods items [] w = (Inr rs, world_after methods items w)"
    and l: "length rs = length items"
    and n: "\<forall>i<length items.
           process_single_request methods (items ! i) (world_after methods (take i items) w) =
             (Inr (rs ! i), world_after methods (take (Suc i) items) w)"
    by auto
  from assms l have "length rs \<noteq> 1" by simp
  with handle_request_batch [OF ne b]
  have out: "fst (handle_request methods (Inr (JList items)) w) = Inr (JList rs)"
    by simp
  have each: "\<forall>i<length items.
              fst (process_single_request methods (items ! i)
                     (world_after methods (take i items) w)) = Inr (rs ! i) \<and>
              (\<forall>rq h r s'.
                 \<not> has_id (items ! i) \<and> A2ARequest_init (items ! i) = Inr rq \<and>
                 methods (rq_method rq) = Some h \<and>
                 invoke h (bind_params h rq) (hstate (world_after methods (take i items) w)) =
                   (Inr r, s')
                 \<longrightarrow> rs ! i =
                       JObj [(''success'', JBool True),
                             (''data'', JObj [(''jsonrpc'', JStr ''2.0''), (''id'', JNull),
                                              (''result'', r)])])"
  proof (intro allI impI conjI)
    fix i
    assume i: "i < length items"
    with n have p: "process_single_request methods (items ! i)
        (world_after methods (take i items) w) =
        (Inr (rs ! i), world_after methods (take (Suc i) items) w)"
      by blast
    then show "fst (process_single_request methods (items ! i)
                     (world_after methods (take i items) w)) = Inr (rs ! i)"
      by simp
    fix rq h r s'
    assume a: "\<not> has_id (items ! i) \<and> A2ARequest_init (items ! i) = Inr rq \<and>
                 methods (rq_method rq) = Some h \<and>
                 invoke h (bind_params h rq) (hstate (world_after methods (take i items) w)) =
                   (Inr r, s')"
    then have "rq_id rq = None"
      using no_id_parsed by blast
    with a p psr_success [of "items ! i" rq methods h "world_after methods (take i items) w" r s']
    show "rs ! i =
                       JObj [(''success'', JBool True),
                             (''data'', JObj [(''jsonrpc'', JStr ''2.0''), (''id'', JNull),
                                              (''result'', r)])]"
      by simp
  qed
  from out l each show ?thesis by blast
qed

theorem C3_every_unit_answered_witness:
  "1 < length [echo_a, echo_bb_no_id] \<and>
   (\<exists>results.
      fst (handle_request (core_methods :: unit registry) (Inr (JList [echo_a, echo_bb_no_id]))
             (start ())) = Inr (JList results) \<and>
      length results = length [echo_a, echo_bb_no_id] \<and>
      (\<forall>i<length [echo_a, echo_bb_no_id].
         fst (process_single_request core_methods ([echo_a, echo_bb_no_id] ! i)
                (world_after core_methods (take i [echo_a, echo_bb_no_id]) (start ()))) =
           Inr (results ! i) \<and>
         (\<forall>rq h r s'.
            \<not> has_id ([echo_a, echo_bb_no_id] ! i) \<and>
            A2ARequest_init ([echo_a, echo_bb_no_id] ! i) = Inr rq \<and>
            core_methods (rq_method rq) = Some h \<and>
            invoke h (bind_params h rq)
              (hstate (world_after core_methods (take i [echo_a, echo_bb_no_id]) (start ()))) =
              (Inr r, s')
            \<longrightarrow> results ! i =
                  JObj [(''success'', JBool True),
                        (''data'', JObj [(''jsonrpc'', JStr ''2.0''), (''id'', JNull),
                                         (''result'', r)])]))) \<and>
   \<not> has_id ([echo_a, echo_bb_no_id] ! 1) \<and>
   A2ARequest_init ([echo_a, echo_bb_no_id] ! 1) =
     Inr \<lparr>rq_jsonrpc = ''2.0'', rq_method = ''echo'',
          rq_params = Some (NamedParams [(''message'', JStr ''bb'')]), rq_id = None\<rparr> \<and>
   (core_methods :: unit registry) ''echo'' = Some echo_handler \<and>
   invoke (echo_handler :: unit handler)
     (bind_params (echo_handler :: unit handler)
        \<lparr>rq_jsonrpc = ''2.0'', rq_method = ''echo'',
         rq_params = Some (NamedParams [(''message'', JStr ''bb'')]), rq_id = None\<rparr>)
     (hstate (world_after core_methods (take 1 [echo_a, echo_bb_no_id]) (start ()))) =
     (Inr (JObj [(''echo'', JStr ''bb''), (''length'', JInt 2)]), ())"
proof -
  have h: "1 < length [echo_a, echo_bb_no_id]" by simp
  have e: "\<not> has_id ([echo_a, echo_bb_no_id] ! 1) \<and>
   A2ARequest_init ([echo_a, echo_bb_no_id] ! 1) =
     Inr \<lparr>rq_jsonrpc = ''2.0'', rq_method = ''echo'',
          rq_params = Some (NamedParams [(''message'', JStr ''bb'')]), rq_id = None\<rparr> \<and>
   (core_methods :: unit registry) ''echo'' = Some echo_handler \<and>
   invoke (echo_handler :: unit handler)
     (bind_params (echo_handler :: unit handler)
        \<lparr>rq_jsonrpc = ''2.0'', rq_method = ''echo'',
         rq_params = Some (NamedParams [(''message'', JStr ''bb'')]), rq_id = None\<rparr>)
     (hstate (world_after core_methods (take 1 [echo_a, echo_bb_no_id]) (start ()))) =
     (Inr (JObj [(''echo'', JStr ''bb''), (''length'', JInt 2)]), ())"
    by (simp add: echo_a_def echo_bb_no_id_def dispatch_defs)
  show ?thesis
    using h e C3_every_unit_answered [OF h, of "core_methods :: unit registry" "start ()"]
    by simp
qed



text \<open>
  C5, as stated, fails: the message of the envelope is \<^verbatim>\<open>str(e)\<close>, and
  \<^verbatim>\<open>A2AError.__init__\<close> makes that \<^verbatim>\<open>[code] message\<close>. For the protocol error with code
  -32602 and message \<^verbatim>\<open>Invalid params: message is required\<close> the envelope's message is
  \<^verbatim>\<open>[-32602] Invalid params: message is required\<close>, not the protocol error's message.
\<close>

theorem C5_counterexample:
  "fst (process_single_request (failing_methods :: unit registry)
          (request_unit ''fail'' JNull (JInt 1)) (start ())) =
     Inr (error_envelope BAD_REQUEST ''[-32602] Invalid params: message is required''
            ''Check your request parameters and try again'') \<and>
   error_envelope BAD_REQUEST ''[-32602] Invalid params: message is required''
     ''Check your request parameters and try again'' \<noteq>
   error_envelope BAD_REQUEST ''Invalid params: message is required''
     ''Check your request parameters and try again''"
  by (simp add: dispatch_defs error_envelope_def A2AError_str_def str_int_example)

text \<open>
  C5, amended. When the handler of a request unit raises \<^verbatim>\<open>A2AError(c, s, d)\<close>, the
  dispatcher returns the error envelope of kind \<^verbatim>\<open>bad_request\<close> whose message is
  \<^verbatim>\<open>[c] s\<close>, the code in decimal between brackets, a space, and the protocol error's
  message; the error itself is logged at level error.
\<close>

theorem C5_protocol_error_message:
  assumes "A2ARequest_init data = Inr rq"
    and "methods (rq_method rq) = Some h"
    and "invoke h (bind_params h rq) (hstate w) = (Inl (A2AError c s d), st)"
  shows "process_single_request methods data w =
     (Inr (error_envelope BAD_REQUEST (''['' @ str_int c @ ''] '' @ s)
             ''Check your request parameters and try again''),
      log_msg ERROR (''A2A error in '' @ rq_method rq @ '': '') (Some (A2AError c s d))
        (w\<lparr>hstate := st\<rparr>))"
  using assms psr_protocol_error [of data rq methods h w c s d st] by (simp add: A2AError_str_def)

theorem C5_protocol_error_message_witness:
  "A2ARequest_init (request_unit ''fail'' JNull (JInt 1)) =
     Inr \<lparr>rq_jsonrpc = ''2.0'', rq_method = ''fail'', rq_params = None, rq_id = Some (IdInt 1)\<rparr> \<and>
   (failing_methods :: unit registry) ''fail'' =
     Some (raising_handler (A2AError (- 32602) ''Invalid params: message is required'' JNull)) \<and>
   invoke (raising_handler (A2AError (- 32602) ''Invalid params: message is required'' JNull)
             :: unit handler)
     (Kwargs []) (hstate (start ())) =
     (Inl (A2AError (- 32602) ''Invalid params: message is required'' JNull), ()) \<and>
   process_single_request (failing_methods :: unit registry)
     (request_unit ''fail'' JNull (JInt 1)) (start ()) =
     (Inr (error_envelope BAD_REQUEST ''[-32602] Invalid params: message is required''
             ''Check your request parameters and try again''),
      \<lparr>hstate = (),
       logs = [\<lparr>level = ERROR, text_of = ''A2A error in fail: '',
                exc = Some (A2AError (- 32602) ''Invalid params: message is required'' JNull)\<rparr>]\<rparr>)"
proof -
  have f1: "A2ARequest_init (request_unit ''fail'' JNull (JInt 1)) =
      Inr \<lparr>rq_jsonrpc = ''2.0'', rq_method = ''fail'', rq_params = None, rq_id = Some (IdInt 1)\<rparr>"
    by (simp add: dispatch_defs)
  have f2: "(failing_methods :: unit registry)
      (rq_method \<lparr>rq_jsonrpc = ''2.0'', rq_method = ''fail'', rq_params = None,
                  rq_id = Some (IdInt 1)\<rparr>) =
      Some (raising_handler (A2AError (- 32602) ''Invalid params: message is required'' JNull))"
    by (simp add: failing_methods_def register_method_def)
  have f3: "invoke (raising_handler (A2AError (- 32602) ''Invalid params: message is required'' JNull)
              :: unit handler)
      (bind_params (raising_handler (A2AError (- 32602) ''Invalid params: message is required'' JNull)
              :: unit handler)
         \<lparr>rq_jsonrpc = ''2.0'', rq_method = ''fail'', rq_params = None, rq_id = Some (IdInt 1)\<rparr>)
      (hstate (start ())) =
      (Inl (A2AError (- 32602) ''Invalid params: message is required'' JNull), ())"
    by (simp add: raising_handler_def)
  show ?thesis
    using f1 f2 f3
      C5_protocol_error_message [where methods = "failing_methods :: unit registry", OF f1 f2 f3]
    by (simp add: raising_handler_def start_def log_msg_def str_int_example)
qed




text \<open>
  C7, as stated, fails in request mode: \<^verbatim>\<open>handle_request\<close> raises
  \<^verbatim>\<open>ValueError("Empty request body")\<close> inside its inner \<^verbatim>\<open>try\<close>, and the clause that
  catches it is \<^verbatim>\<open>except Exception\<close>, which answers with kind \<^verbatim>\<open>internal_error\<close> and the
  message \<^verbatim>\<open>An error occurred while processing your request\<close>. The empty object is such a
  payload.
\<close>

theorem C7_counterexample:
  "handle_request (core_methods :: unit registry) (Inr (JObj [])) (start ()) =
     (Inr (JObj [(''success'', JBool False),
                 (''error'',
                  JObj [(''success'', JBool False),
                        (''error'', JObj [(''type'', JStr ''internal_error''),
                                          (''message'', JStr ''An error occurred while processing your request''),
                                          (''suggestion'', JStr ''Please try again later'')]),
                        (''meta'', JObj [])])]),
      \<lparr>hstate = (),
       logs = [\<lparr>level = EXCEPTION, text_of = ''Error processing request: '',
                exc = Some (ValueError ''Empty request body'')\<rparr>]\<rparr>) \<and>
   ErrorType_value INTERNAL_ERROR \<noteq> ErrorType_value BAD_REQUEST \<and>
   ''An error occurred while processing your request'' \<noteq> ''empty request body''"
  by (simp add: dispatch_defs)

text \<open>
  C7, amended. For every payload that decodes to an empty value (null, false, 0, the
  empty string, list or object): in request mode \<^verbatim>\<open>handle_request\<close> returns an error
  envelope of kind \<^verbatim>\<open>internal_error\<close> with the message
  \<^verbatim>\<open>An error occurred while processing your request\<close>, the text
  \<^verbatim>\<open>Empty request body\<close> going to the log only; in notification mode
  \<^verbatim>\<open>handle_notification\<close> logs the warning \<^verbatim>\<open>Received empty notification\<close> and returns
  nothing, without an exception and without calling a handler.
\<close>

theorem C7_empty_payload:
  assumes "\<not> truthy body"
  shows "handle_request methods (Inr body) w =
           (Inr (error_envelope INTERNAL_ERROR ''An error occurred while processing your request''
                   ''Please try again later''),
            log_msg EXCEPTION ''Error processing request: ''
              (Some (ValueError ''Empty request body'')) w) \<and>
         handle_notification methods (Inr body) w =
           (Inr (), log_msg WARNING ''Received empty notification'' None w)"
  using assms handle_request_raises [OF handle_request_empty, of body methods w]
    handle_notification_empty [of body methods w]
  by simp

theorem C7_empty_payload_witness:
  "\<not> truthy (JObj []) \<and>
   handle_request (core_methods :: unit registry) (Inr (JObj [])) (start ()) =
     (Inr (error_envelope INTERNAL_ERROR ''An error occurred while processing your request''
             ''Please try again later''),
      log_msg EXCEPTION ''Error processing request: ''
        (Some (ValueError ''Empty request body'')) (start ())) \<and>
   handle_notification (core_methods :: unit registry) (Inr (JObj [])) (start ()) =
     (Inr (), log_msg WARNING ''Received empty notification'' None (start ()))"
proof -
  have h: "\<not> truthy (JObj [])" by simp
  show ?thesis
    using h C7_empty_payload [OF h, of "core_methods :: unit registry" "start ()"] by simp
qed

text \<open>
  C8, as stated, fails: a unit without the \<^verbatim>\<open>method\<close> member makes \<^verbatim>\<open>A2ARequest(**data)\<close>
  raise pydantic's validation error, which the \<^verbatim>\<open>except Exception\<close> of
  \<^verbatim>\<open>_process_single_request\<close> turns into kind \<^verbatim>\<open>internal_error\<close> with a message that
  does not name the problem.
\<close>

theorem C8_counterexample:
  "A2ARequest_init (JObj [(''jsonrpc'', JStr ''2.0''), (''id'', JInt 1)]) =
     Inl (ValidationError [''method'']) \<and>
   handle_request (core_methods :: unit registry)
     (Inr (JObj [(''jsonrpc'', JStr ''2.0''), (''id'', JInt 1)])) (start ()) =
     (Inr (JObj [(''success'', JBool False),
                 (''error'',
                  JObj [(''success'', JBool False),
                        (''error'', JObj [(''type'', JStr ''internal_error''),
                                          (''message'', JStr ''An error occurred while processing your request''),
                                          (''suggestion'', JStr ''Please try again later'')]),
                        (''meta'', JObj [])])]),
      \<lparr>hstate = (),
       logs = [\<lparr>level = EXCEPTION, text_of = ''Error processing request: '',
                exc = Some (ValidationError [''method''])\<rparr>]\<rparr>) \<and>
   ErrorType_value INTERNAL_ERROR \<noteq> ErrorType_value BAD_REQUEST"
  by (simp add: dispatch_defs)

text \<open>
  C8, amended. For every request-mode payload unit that fails structural validation
  against the Request shape (or is not an object at all), the dispatcher returns an error
  envelope of kind \<^verbatim>\<open>internal_error\<close> with the fixed message
  \<^verbatim>\<open>An error occurred while processing your request\<close>; the structural problem is
  recorded in the log only, no handler is called, and nothing is raised to the caller.
  \<^verbatim>\<open>handle_request\<close> on such a unit alone (any non-empty payload that is not a list)
  returns the same.
\<close>

theorem C8_malformed_unit:
  assumes "A2ARequest_init data = Inl e"
  shows "process_single_request methods data w =
           (Inr (error_envelope INTERNAL_ERROR ''An error occurred while processing your request''
                   ''Please try again later''),
            log_msg EXCEPTION ''Error processing request: '' (Some e) w) \<and>
         (truthy data \<and> (\<forall>items. data \<noteq> JList items) \<longrightarrow>
          handle_request methods (Inr data) w =
            (Inr (error_envelope INTERNAL_ERROR ''An error occurred while processing your request''
                    ''Please try again later''),
             log_msg EXCEPTION ''Error processing request: '' (Some e) w))"
  using psr_invalid [OF assms, of methods w] handle_request_single [of data methods w]
  by simp

theorem C8_malformed_unit_witness:
  "A2ARequest_init (JObj [(''jsonrpc'', JStr ''2.0''), (''id'', JInt 1)]) =
     Inl (ValidationError [''method'']) \<and>
   truthy (JObj [(''jsonrpc'', JStr ''2.0''), (''id'', JInt 1)]) \<and>
   (\<forall>items. JObj [(''jsonrpc'', JStr ''2.0''), (''id'', JInt 1)] \<noteq> JList items) \<and>
   process_single_request (core_methods :: unit registry)
     (JObj [(''jsonrpc'', JStr ''2.0''), (''id'', JInt 1)]) (start ()) =
     (Inr (error_envelope INTERNAL_ERROR ''An error occurred while processing your request''
             ''Please try again later''),
      log_msg EXCEPTION ''Error processing request: '' (Some (ValidationError [''method'']))
        (start ())) \<and>
   handle_request (core_methods :: unit registry)
     (Inr (JObj [(''jsonrpc'', JStr ''2.0''), (''id'', JInt 1)])) (start ()) =
     (Inr (error_envelope INTERNAL_ERROR ''An error occurred while processing your request''
             ''Please try again later''),
      log_msg EXCEPTION ''Error processing request: '' (Some (ValidationError [''method'']))
        (start ()))"
proof -
  have h: "A2ARequest_init (JObj [(''jsonrpc'', JStr ''2.0''), (''id'', JInt 1)]) =
     Inl (ValidationError [''method''])"
    by (simp add: dispatch_defs)
  show ?thesis
    using h C8_malformed_unit [OF h, of "core_methods :: unit registry" "start ()"] by simp
qed



text \<open>
  C10. In notification mode a unit with an \<^verbatim>\<open>id\<close> member that is not null fails the
  validation of \<^verbatim>\<open>A2ANotification\<close>, whose \<^verbatim>\<open>id\<close> admits only an absent or null value: the
  validation error names the field \<^verbatim>\<open>id\<close>, it is logged and swallowed, the state the
  handlers act on is left as it was whatever is registered (no handler is called), and
  \<^verbatim>\<open>handle_notification\<close> on that unit returns nothing.
\<close>

theorem C10_notification_with_id:
  assumes "map_of kvs ''id'' = Some v" and "v \<noteq> JNull"
  shows "\<exists>fields. ''id'' \<in> set fields \<and>
           A2ANotification_init (JObj kvs) = Inl (ValidationError fields) \<and>
           process_single_notification methods (JObj kvs) w =
             (Inr (), log_msg EXCEPTION ''Error processing notification: ''
                        (Some (ValidationError fields)) w) \<and>
           handle_notification methods (Inr (JObj kvs)) w =
             (Inr (), log_msg EXCEPTION ''Error processing notification: ''
                        (Some (ValidationError fields)) w) \<and>
           hstate (snd (handle_notification methods (Inr (JObj kvs)) w)) = hstate w"
proof -
  from notification_id_rejected [OF assms] obtain fields where
    f: "A2ANotification_init (JObj kvs) = Inl (ValidationError fields)" and i: "''id'' \<in> set fields"
    by blast
  have p: "process_single_notification methods (JObj kvs) w =
      (Inr (), log_msg EXCEPTION ''Error processing notification: ''
                 (Some (ValidationError fields)) w)"
    using psn_invalid [OF f] .
  from assms have "kvs \<noteq> []" by auto
  then have "handle_notification methods (Inr (JObj kvs)) w =
      process_single_notification methods (JObj kvs) w"
    using handle_notification_single [of "JObj kvs" methods w] by simp
  with p have h: "handle_notification methods (Inr (JObj kvs)) w =
      (Inr (), log_msg EXCEPTION ''Error processing notification: ''
                 (Some (ValidationError fields)) w)"
    by simp
  then have "hstate (snd (handle_notification methods (Inr (JObj kvs)) w)) = hstate w"
    by (simp add: log_msg_def)
  with f i p h show ?thesis by blast
qed

theorem C10_notification_with_id_witness:
  "map_of [(''jsonrpc'', JStr ''2.0''), (''method'', JStr ''ping''), (''id'', JInt 7)] ''id'' =
     Some (JInt 7) \<and> JInt 7 \<noteq> JNull \<and>
   (\<exists>fields. ''id'' \<in> set fields \<and>
      A2ANotification_init
        (JObj [(''jsonrpc'', JStr ''2.0''), (''method'', JStr ''ping''), (''id'', JInt 7)]) =
        Inl (ValidationError fields) \<and>
      process_single_notification recording_methods
        (JObj [(''jsonrpc'', JStr ''2.0''), (''method'', JStr ''ping''), (''id'', JInt 7)])
        (start []) =
        (Inr (), log_msg EXCEPTION ''Error processing notification: ''
                   (Some (ValidationError fields)) (start [])) \<and>
      handle_notification recording_methods
        (Inr (JObj [(''jsonrpc'', JStr ''2.0''), (''method'', JStr ''ping''), (''id'', JInt 7)]))
        (start []) =
        (Inr (), log_msg EXCEPTION ''Error processing notification: ''
                   (Some (ValidationError fields)) (start [])) \<and>
      hstate (snd (handle_notification recording_methods
        (Inr (JObj [(''jsonrpc'', JStr ''2.0''), (''method'', JStr ''ping''), (''id'', JInt 7)]))
        (start []))) = hstate (start []))"
proof -
  have a: "map_of [(''jsonrpc'', JStr ''2.0''), (''method'', JStr ''ping''), (''id'', JInt 7)]
      ''id'' = Some (JInt 7)"
    by simp
  have b: "JInt 7 \<noteq> JNull" by simp
  show ?thesis
    using a b C10_notification_with_id [OF a b, of recording_methods "start []"] by simp
qed

text \<open>For comparison, the same unit without its id does reach the handler, which
  records the call; with the id, the record stays empty.\<close>

lemma notification_without_id_reaches_handler:
  "handle_notification recording_methods
     (Inr (JObj [(''jsonrpc'', JStr ''2.0''), (''method'', JStr ''ping'')])) (start []) =
     (Inr (), \<lparr>hstate = [''ping''], logs = []\<rparr>)"
  by (simp add: dispatch_defs)

lemma notification_with_id_example:
  "handle_notification recording_methods
     (Inr (JObj [(''jsonrpc'', JStr ''2.0''), (''method'', JStr ''ping''), (''id'', JInt 7)]))
     (start []) =
     (Inr (), \<lparr>hstate = [],
               logs = [\<lparr>level = EXCEPTION, text_of = ''Error processing notification: '',
                        exc = Some (ValidationError [''id''])\<rparr>]\<rparr>)"
  by (simp add: dispatch_defs)

end
